theory Spec2Isabelle
  imports Main "HOL-Library.Sublist"
begin

section \<open>The infrastructure stack (lib/ecs-nextjs-infra-stack.ts)\<close>

text \<open>
  The stack's constructor is straight-line code: it calls the constructor of the library's
  \<open>Stack\<close>, makes six constructs of the infrastructure library in a fixed order, each
  attached to the stack under an id, and calls methods on three of them. The library is
  not part of the repository. The model keeps what the repository's code decides: which
  calls are made, in which order, with which arguments, on which objects, and where an
  exception goes. What the library decides is a parameter of the model: whether a call
  throws, the ARNs it issues, and the state it keeps for itself between calls.
\<close>

subsection \<open>Constructs and their properties\<close>










text \<open>\<open>s3.Bucket\<close>: its properties, and the construct with its ARN and its bucket policy.\<close>

datatype RemovalPolicy = DESTROY | RETAIN | SNAPSHOT

datatype BlockPublicAccess = BLOCK_ALL | BLOCK_ACLS
















subsection \<open>The library as a parameter\<close>



subsection \<open>Construction as a computation on the library state and the stack\<close>








subsection \<open>The library calls of the constructor\<close>

















subsection \<open>The constructor\<close>



subsection \<open>Notions the properties are stated with\<close>



text \<open>
  Actions by service: an action of the storage service has the prefix \<open>s3:\<close>, an action of
  the image registry the prefix \<open>ecr:\<close>, an action of the log service the prefix \<open>logs:\<close>.
\<close>

definition is_storage_action :: "string \<Rightarrow> bool" where
  "is_storage_action a = (take 3 a = ''s3:'')"

definition is_image_pull_action :: "string \<Rightarrow> bool" where
  "is_image_pull_action a = (take 4 a = ''ecr:'')"

definition is_log_action :: "string \<Rightarrow> bool" where
  "is_log_action a = (take 5 a = ''logs:'')"







section \<open>The demo API endpoint (src/app/api/hello/route.ts)\<close>

text \<open>
  The handler reads the parsed query of the request URL. \<open>URLSearchParams\<close> is an ordered
  list of name/value pairs (a name may occur more than once), and its \<open>get\<close> returns the
  value of the first pair with the given name, or \<open>null\<close> (here \<open>None\<close>) when there is none.
\<close>

type_synonym URLSearchParams = "(string \<times> string) list"

fun searchParams_get :: "URLSearchParams \<Rightarrow> string \<Rightarrow> string option" where
  "searchParams_get [] n = None"
| "searchParams_get ((k, v) # ps) n = (if k = n then Some v else searchParams_get ps n)"

text \<open>
  The operator \<open>||\<close> on a value of type \<open>string | null\<close>: the left operand is falsy when it
  is \<open>null\<close> or the empty string, and then the right operand is the result.
\<close>

fun or_string :: "string option \<Rightarrow> string \<Rightarrow> string" where
  "or_string None d = d"
| "or_string (Some v) d = (if v = [] then d else v)"

text \<open>The request, as far as the handler reads it: the query of \<open>request.url\<close>.\<close>

record Request =
  searchParams :: URLSearchParams

text \<open>The JSON values the handler builds, and the response of \<open>NextResponse.json\<close>.\<close>

datatype json = JString string | JObject "(string \<times> json) list"

record Response =
  status :: nat
  body :: json

definition GET :: "Request \<Rightarrow> Response" where
  "GET request =
     (let name = or_string (searchParams_get (searchParams request) ''name'') ''Guest''
      in \<lparr>status = 200, body = JObject [(''message'', JString (''Hello, '' @ name @ ''!''))]\<rparr>)"

section \<open>Properties of the endpoint\<close>

lemma searchParams_get_absent:
  "n \<notin> fst ` set ps \<Longrightarrow> searchParams_get ps n = None"
  by (induction ps) auto

lemma searchParams_get_first:
  "n \<notin> fst ` set pre \<Longrightarrow> searchParams_get (pre @ (n, v) # post) n = Some v"
  by (induction pre) auto

lemma searchParams_get_present:
  "searchParams_get ps n = Some v \<Longrightarrow>
     \<exists>pre post. ps = pre @ (n, v) # post \<and> n \<notin> fst ` set pre"
proof (induction ps)
  case Nil
  then show ?case by simp
next
  case (Cons p ps)
  obtain k w where p: "p = (k, w)" by (cases p)
  show ?case
  proof (cases "k = n")
    case True
    with Cons.prems p have "p # ps = [] @ (n, v) # ps \<and> n \<notin> fst ` set ([] :: (string \<times> string) list)"
      by simp
    then show ?thesis by (intro exI)
  next
    case False
    with Cons.prems p have "searchParams_get ps n = Some v" by simp
    from Cons.IH [OF this] obtain pre post
      where "ps = pre @ (n, v) # post" and "n \<notin> fst ` set pre" by blast
    with False p have "p # ps = (p # pre) @ (n, v) # post \<and> n \<notin> fst ` set (p # pre)"
      by auto
    then show ?thesis by (intro exI)
  qed
qed

text \<open>
  C10. For every GET request the body is the JSON object with the single member
  \<open>message\<close> = \<open>Hello, <name>!\<close>. When the query of the request has no \<open>name\<close> parameter,
  \<open><name>\<close> is \<open>Guest\<close>. When it has one, \<open><name>\<close> is the value of that parameter (of the
  first one, should the query repeat the name), but \<open>Guest\<close> when that value is the empty
  string. In terms of the handler's own lookup: \<open><name>\<close> is what \<open>searchParams.get\<close>
  returns, and \<open>Guest\<close> when that is \<open>null\<close> or empty.
\<close>

theorem GET_hello:
  "(\<exists>name. body (GET request) = JObject [(''message'', JString (''Hello, '' @ name @ ''!''))]
      \<and> name = (case searchParams_get (searchParams request) ''name'' of
                  None \<Rightarrow> ''Guest'' | Some v \<Rightarrow> if v = [] then ''Guest'' else v))
   \<and> (''name'' \<notin> fst ` set (searchParams request) \<longrightarrow>
        body (GET request) = JObject [(''message'', JString ''Hello, Guest!'')])
   \<and> (\<forall>pre v post.
        searchParams request = pre @ (''name'', v) # post \<and> ''name'' \<notin> fst ` set pre \<longrightarrow>
        body (GET request) =
          JObject [(''message'', JString (''Hello, '' @ (if v = [] then ''Guest'' else v) @ ''!''))])
   \<and> (searchParams_get (searchParams request) ''name'' = Some [] \<longrightarrow>
        body (GET request) = JObject [(''message'', JString ''Hello, Guest!'')])
   \<and> (\<forall>v. searchParams_get (searchParams request) ''name'' = Some v \<and> v \<noteq> [] \<longrightarrow>
        body (GET request) = JObject [(''message'', JString (''Hello, '' @ v @ ''!''))])"
  by (auto simp: GET_def Let_def searchParams_get_absent searchParams_get_first
        split: option.splits)

theorem GET_hello_witness:
  "body (GET \<lparr>searchParams = [(''lang'', ''en'')]\<rparr>) = JObject [(''message'', JString ''Hello, Guest!'')]
   \<and> body (GET \<lparr>searchParams = [(''name'', [])]\<rparr>) = JObject [(''message'', JString ''Hello, Guest!'')]
   \<and> body (GET \<lparr>searchParams = [(''lang'', ''en''), (''name'', ''Ada''), (''name'', ''Bob'')]\<rparr>)
       = JObject [(''message'', JString ''Hello, Ada!'')]"
proof -
  have 1: "body (GET \<lparr>searchParams = [(''lang'', ''en'')]\<rparr>)
             = JObject [(''message'', JString ''Hello, Guest!'')]"
    using GET_hello [of "\<lparr>searchParams = [(''lang'', ''en'')]\<rparr>"] by simp
  have 2: "body (GET \<lparr>searchParams = [(''name'', [])]\<rparr>)
             = JObject [(''message'', JString ''Hello, Guest!'')]"
    using GET_hello [of "\<lparr>searchParams = [(''name'', [])]\<rparr>",
        THEN conjunct2, THEN conjunct2, THEN conjunct1, rule_format,
        of "[]" "[]" "[]"]
    by simp
  have 3: "body (GET \<lparr>searchParams = [(''lang'', ''en''), (''name'', ''Ada''), (''name'', ''Bob'')]\<rparr>)
             = JObject [(''message'', JString ''Hello, Ada!'')]"
    using GET_hello [of "\<lparr>searchParams = [(''lang'', ''en''), (''name'', ''Ada''), (''name'', ''Bob'')]\<rparr>",
        THEN conjunct2, THEN conjunct2, THEN conjunct1, rule_format,
        of "[(''lang'', ''en'')]" "''Ada''" "[(''name'', ''Bob'')]"]
    by simp
  from 1 2 3 show ?thesis by simp
qed

section \<open>Properties of the infrastructure stack\<close>

subsection \<open>How a call ends\<close>



















lemma actions_by_service:
  "filter is_storage_action [''ecr:GetAuthorizationToken'', ''ecr:BatchCheckLayerAvailability'',
                 ''ecr:DescribeRepositories'', ''ecr:GetDownloadUrlForLayer'',
                 ''logs:CreateLogStream'', ''logs:PutLogEvents'',
                 ''s3:GetObject'', ''s3:ListBucket''] = [''s3:GetObject'', ''s3:ListBucket'']"
  "filter is_image_pull_action [''ecr:GetAuthorizationToken'', ''ecr:BatchCheckLayerAvailability'',
                 ''ecr:DescribeRepositories'', ''ecr:GetDownloadUrlForLayer'',
                 ''logs:CreateLogStream'', ''logs:PutLogEvents'',
                 ''s3:GetObject'', ''s3:ListBucket''] =
     [''ecr:GetAuthorizationToken'', ''ecr:BatchCheckLayerAvailability'',
      ''ecr:DescribeRepositories'', ''ecr:GetDownloadUrlForLayer'']"
  "filter is_log_action [''ecr:GetAuthorizationToken'', ''ecr:BatchCheckLayerAvailability'',
                 ''ecr:DescribeRepositories'', ''ecr:GetDownloadUrlForLayer'',
                 ''logs:CreateLogStream'', ''logs:PutLogEvents'',
                 ''s3:GetObject'', ''s3:ListBucket''] = [''logs:CreateLogStream'', ''logs:PutLogEvents'']"
  by (simp_all add: is_storage_action_def is_image_pull_action_def is_log_action_def)

section \<open>The claims about the stack\<close>
















end
